theory Spec2Isabelle
  imports Main "HOL-Library.Log_Nat"
begin

section \<open>Python floats\<close>

text \<open>
  The bias corrector computes on Python floats, that is IEEE 754 binary64 values with
  round-to-nearest, ties-to-even. A float is a rational (the finite values), an infinity
  or NaN. The sign of zero is not modelled: no comparison of the program can see it.
\<close>

datatype pyfloat = Finite rat | PosInf | NegInf | NaN

text \<open>\<open>ilog2 x\<close> is the exponent of the binade of a positive rational.\<close>

definition ilog2 :: "rat \<Rightarrow> int" where
  "ilog2 x = (case quotient_of x of (p, q) \<Rightarrow>
     (let e = bitlen p - bitlen q in if 2 powi e \<le> x then e else e - 1))"

definition round_even :: "rat \<Rightarrow> int" where
  "round_even x = (let f = \<lfloor>x\<rfloor>; d = x - of_int f in
     if d < 1 / 2 then f else if 1 / 2 < d then f + 1 else if even f then f else f + 1)"

text \<open>
  Rounding of an exact result to binary64: 53 significant bits, the exponent of the
  smallest normal number below it (subnormals), overflow to an infinity.
\<close>

definition round_double :: "rat \<Rightarrow> pyfloat" where
  "round_double x = (if x = 0 then Finite 0 else
     (let q = max (ilog2 \<bar>x\<bar>) (- 1022) - 52;
          r = of_int (round_even (x / 2 powi q)) * 2 powi q
      in if 2 powi 1024 \<le> r then PosInf
         else if r \<le> - (2 powi 1024) then NegInf else Finite r))"

text \<open>A decimal literal of the source denotes the nearest double.\<close>

definition float_lit :: "rat \<Rightarrow> pyfloat" where
  "float_lit x = round_double x"

fun fneg :: "pyfloat \<Rightarrow> pyfloat" where
  "fneg (Finite a) = Finite (- a)"
| "fneg PosInf = NegInf"
| "fneg NegInf = PosInf"
| "fneg NaN = NaN"

fun fadd :: "pyfloat \<Rightarrow> pyfloat \<Rightarrow> pyfloat" where
  "fadd (Finite a) (Finite b) = round_double (a + b)"
| "fadd NaN _ = NaN"
| "fadd _ NaN = NaN"
| "fadd PosInf NegInf = NaN"
| "fadd NegInf PosInf = NaN"
| "fadd PosInf _ = PosInf"
| "fadd NegInf _ = NegInf"
| "fadd _ PosInf = PosInf"
| "fadd _ NegInf = NegInf"

definition fsub :: "pyfloat \<Rightarrow> pyfloat \<Rightarrow> pyfloat" where
  "fsub a b = fadd a (fneg b)"

definition fsign :: "pyfloat \<Rightarrow> int" where
  "fsign a = (case a of Finite x \<Rightarrow> (if x < 0 then - 1 else if x = 0 then 0 else 1)
     | PosInf \<Rightarrow> 1 | NegInf \<Rightarrow> - 1 | NaN \<Rightarrow> 0)"

fun fmul :: "pyfloat \<Rightarrow> pyfloat \<Rightarrow> pyfloat" where
  "fmul (Finite a) (Finite b) = round_double (a * b)"
| "fmul NaN _ = NaN"
| "fmul _ NaN = NaN"
| "fmul a b =
     (if fsign a * fsign b = 0 then NaN else if 0 < fsign a * fsign b then PosInf else NegInf)"

text \<open>\<open>a < b\<close> on floats: every comparison with NaN is false.\<close>

fun flt :: "pyfloat \<Rightarrow> pyfloat \<Rightarrow> bool" where
  "flt NaN _ = False"
| "flt _ NaN = False"
| "flt (Finite a) (Finite b) = (a < b)"
| "flt PosInf _ = False"
| "flt _ NegInf = False"
| "flt NegInf _ = True"
| "flt _ PosInf = True"

text \<open>
  The builtins \<open>min(a, b)\<close> and \<open>max(a, b)\<close> keep the first argument unless the second
  is strictly smaller (strictly larger).
\<close>

definition py_min :: "pyfloat \<Rightarrow> pyfloat \<Rightarrow> pyfloat" where
  "py_min a b = (if flt b a then b else a)"

definition py_max :: "pyfloat \<Rightarrow> pyfloat \<Rightarrow> pyfloat" where
  "py_max a b = (if flt a b then b else a)"

definition in_bounds :: "pyfloat \<Rightarrow> bool" where
  "in_bounds a = (case a of Finite x \<Rightarrow> - 1 \<le> x \<and> x \<le> 1 | PosInf \<Rightarrow> False
     | NegInf \<Rightarrow> False | NaN \<Rightarrow> False)"

section \<open>Configuration (app/config/settings.py)\<close>

text \<open>\<open>d.get(key, default)\<close> on a dictionary.\<close>

definition dict_get :: "('k \<rightharpoonup> 'v) \<Rightarrow> 'k \<Rightarrow> 'v \<Rightarrow> 'v" where
  "dict_get d k dflt = (case d k of None \<Rightarrow> dflt | Some v \<Rightarrow> v)"

record BiasConfig =
  adjustment_factors :: "string \<rightharpoonup> pyfloat"
  baseline_negativity :: "string \<rightharpoonup> pyfloat"

definition bias_config :: BiasConfig where
  "bias_config = \<lparr>
     adjustment_factors = map_of
       [(''twitter'', float_lit (7 / 10)),
        (''facebook'', float_lit (8 / 10)),
        (''news'', float_lit (6 / 10)),
        (''government'', float_lit (12 / 10)),
        (''community'', float_lit 1)],
     baseline_negativity = map_of
       [(''twitter'', float_lit (- (35 / 100))),
        (''facebook'', float_lit (- (25 / 100))),
        (''news'', float_lit (- (45 / 100))),
        (''government'', float_lit (- (5 / 100))),
        (''community'', float_lit (- (15 / 100)))] \<rparr>"

record AlertConfig =
  high_threshold :: rat
  medium_threshold :: rat
  minimum_sources :: nat

definition alert_config :: AlertConfig where
  "alert_config = \<lparr> high_threshold = - (5 / 10), medium_threshold = - (3 / 10),
     minimum_sources = 3 \<rparr>"

section \<open>Bias corrector (app/core/bias_corrector.py)\<close>

definition adjust_sentiment :: "BiasConfig \<Rightarrow> pyfloat \<Rightarrow> string \<Rightarrow> pyfloat" where
  "adjust_sentiment self raw_sentiment source =
     (let adjustment_factor = dict_get (adjustment_factors self) source (float_lit 1);
          baseline = dict_get (baseline_negativity self) source (float_lit (- (2 / 10)));
          normalized = fsub raw_sentiment baseline;
          adjusted = (if flt raw_sentiment (Finite 0)
                      then fadd (fmul normalized adjustment_factor) baseline
                      else fadd (fmul normalized (float_lit (11 / 10))) baseline)
      in py_max (Finite (- 1)) (py_min (Finite 1) adjusted))"

section \<open>Strings\<close>

text \<open>
  Texts are byte strings; \<open>lower\<close> is \<open>str.lower()\<close> on ASCII, where it maps the
  letters A to Z to a to z and leaves every other character alone.
\<close>

definition lower_char :: "char \<Rightarrow> char" where
  "lower_char c = (if (65::nat) \<le> of_char c \<and> of_char c \<le> (90::nat)
     then char_of (of_char c + (32::nat)) else c)"

definition lower :: "string \<Rightarrow> string" where
  "lower s = map lower_char s"

fun starts_with :: "string \<Rightarrow> string \<Rightarrow> bool" where
  "starts_with s [] = True"
| "starts_with [] (k # ks) = False"
| "starts_with (c # cs) (k # ks) = (c = k \<and> starts_with cs ks)"

text \<open>\<open>py_in w s\<close> is the substring test \<open>w in s\<close>.\<close>

fun py_in :: "string \<Rightarrow> string \<Rightarrow> bool" where
  "py_in w [] = (w = [])"
| "py_in w (c # cs) = (starts_with (c # cs) w \<or> py_in w cs)"

text \<open>\<open>any(word in s for word in ws)\<close> and \<open>sum(1 for word in ws if word in s)\<close>.\<close>

definition any_in :: "string list \<Rightarrow> string \<Rightarrow> bool" where
  "any_in ws s = list_ex (\<lambda>word. py_in word s) ws"

definition count_in :: "string list \<Rightarrow> string \<Rightarrow> nat" where
  "count_in ws s = length (filter (\<lambda>word. py_in word s) ws)"

definition digit_char :: "nat \<Rightarrow> char" where
  "digit_char n = char_of (48 + n)"

text \<open>\<open>str(n)\<close> for a non-negative integer.\<close>

fun show_nat :: "nat \<Rightarrow> string" where
  "show_nat n = (if n < 10 then [digit_char n]
     else show_nat (n div 10) @ [digit_char (n mod 10)])"

declare show_nat.simps [simp del]

section \<open>Text classifiers of the collector (app/core/data_collector.py)\<close>

text \<open>\<open>settings.data_collection.security_keywords\<close>, in insertion order.\<close>

definition security_keywords :: "(string \<times> string list) list" where
  "security_keywords =
     [(''english'', [''security'', ''crime'', ''theft'', ''robbery'', ''traffic'', ''accident'',
                     ''police'', ''safety'', ''emergency'', ''incident'', ''violence'']),
      (''pidgin'', [''wahala'', ''gbege'', ''kasala'', ''palaba'', ''scatter'', ''burst'']),
      (''yoruba'', [''ija'', ''ole'', ''wahala'', ''opolopo'', ''ewu''])]"

definition keywords_of :: "(string \<times> string list) list \<Rightarrow> string \<Rightarrow> string list" where
  "keywords_of table k = dict_get (map_of table) k []"

definition categorize_security_issue :: "string \<Rightarrow> string" where
  "categorize_security_issue txt =
     (let text_lower = lower txt in
      if any_in [''traffic'', ''road'', ''accident'', ''jam''] text_lower then ''traffic''
      else if any_in [''crime'', ''theft'', ''robbery'', ''steal''] text_lower then ''crime''
      else if any_in [''police'', ''law'', ''arrest''] text_lower then ''law_enforcement''
      else if any_in [''emergency'', ''fire'', ''medical''] text_lower then ''emergency''
      else ''general'')"

definition detect_language :: "string \<Rightarrow> string" where
  "detect_language txt =
     (let pidgin_words = keywords_of security_keywords ''pidgin'';
          yoruba_words = keywords_of security_keywords ''yoruba'';
          text_lower = lower txt in
      if any_in pidgin_words text_lower then ''pidgin''
      else if any_in yoruba_words text_lower then ''yoruba''
      else ''english'')"

definition is_security_related :: "string \<Rightarrow> bool" where
  "is_security_related txt =
     (let text_lower = lower txt in
      list_ex (\<lambda>lang_keywords. any_in lang_keywords text_lower) (map snd security_keywords))"

section \<open>Helpers (app/utils/helpers.py)\<close>

definition pidgin_indicators :: "string list" where
  "pidgin_indicators =
     [''wahala'', ''gbege'', ''kasala'', ''palaba'', ''dey'', ''wetin'', ''abi'', ''shey'',
      ''abeg'', ''comot'', ''naija'', ''naira'', ''oga'', ''madam'', ''pikin'', ''japa'',
      ''sabi'', ''waka'', ''gist'', ''hammer'', ''scatter'']"

definition yoruba_indicators :: "string list" where
  "yoruba_indicators =
     [''omo'', ''oko'', ''obinrin'', ''awa'', ''eyin'', ''won'', ''mi'', ''tire'', ''wa'',
      ''ile'', ''oja'', ''eko'', ''agba'', ''omo'', ''baba'', ''mama'', ''eko'', ''iya'']"

definition detect_nigerian_language :: "string \<Rightarrow> string" where
  "detect_nigerian_language txt =
     (let text_lower = lower txt;
          pidgin_count = count_in pidgin_indicators text_lower;
          yoruba_count = count_in yoruba_indicators text_lower in
      if pidgin_count > yoruba_count \<and> pidgin_count > 0 then ''pidgin''
      else if yoruba_count > 0 then ''yoruba''
      else ''english'')"

text \<open>The keyword table local to \<open>is_security_relevant\<close>, in insertion order.\<close>

definition relevance_keywords :: "(string \<times> string list) list" where
  "relevance_keywords =
     [(''direct'', [''security'', ''crime'', ''theft'', ''robbery'', ''burglary'', ''violence'',
                    ''police'', ''safety'', ''dangerous'', ''threat'', ''attack'', ''incident'',
                    ''emergency'', ''accident'', ''fire'', ''medical'', ''ambulance'']),
      (''traffic'', [''traffic'', ''road'', ''highway'', ''bridge'', ''transport'', ''bus'',
                     ''taxi'', ''okada'', ''keke'', ''danfo'', ''jam'', ''congestion'']),
      (''locations'', [''street'', ''road'', ''avenue'', ''bridge'', ''market'', ''park'',
                       ''station'', ''airport'', ''port'', ''hospital'', ''school'']),
      (''nigerian'', [''naija'', ''lagos'', ''wahala'', ''gbege'', ''kasala'', ''palaba''])]"

text \<open>The loop \<open>for category, keywords in security_keywords.items()\<close> with its counter.\<close>

fun matches_loop :: "(string \<times> string list) list \<Rightarrow> string \<Rightarrow> nat \<Rightarrow> nat" where
  "matches_loop [] text_lower total_matches = total_matches"
| "matches_loop ((category, keywords) # rest) text_lower total_matches =
     matches_loop rest text_lower (total_matches + count_in keywords text_lower)"

definition is_security_relevant :: "string \<Rightarrow> bool" where
  "is_security_relevant txt = (matches_loop relevance_keywords (lower txt) 0 \<ge> 2)"

text \<open>The distinct keywords of the table that occur in a text.\<close>

definition keywords_present :: "string \<Rightarrow> string list" where
  "keywords_present txt =
     filter (\<lambda>word. py_in word (lower txt)) (remdups (concat (map snd relevance_keywords)))"

section \<open>Data models (app/api/models.py)\<close>

text \<open>
  Stored scores and confidences are exact rationals and timestamps are seconds: the
  aggregations below are modelled in exact arithmetic, the summation order and the
  rounding of pandas and SQLite being outside the model.
\<close>

record SentimentData =
  source :: string
  content :: string
  raw_sentiment :: rat
  adjusted_sentiment :: rat
  location :: string
  timestamp :: int
  confidence :: rat
  category :: string
  language :: string

record SecurityAlert =
  area :: string
  message :: string
  severity :: string
  alert_confidence :: rat
  alert_type :: string
  alert_timestamp :: int
  resolved :: bool

text \<open>A report of the given area, score, category and time, for the examples.\<close>

definition sample_report :: "string \<Rightarrow> rat \<Rightarrow> string \<Rightarrow> int \<Rightarrow> SentimentData" where
  "sample_report a s c t = \<lparr> source = ''twitter'', content = ''report'', raw_sentiment = s,
     adjusted_sentiment = s, location = a, timestamp = t, confidence = 1 / 2, category = c,
     language = ''english'' \<rparr>"

datatype py_error = IndexError | ZeroDivisionError

text \<open>First occurrences, in order: \<open>Series.unique()\<close>, and the groups of \<open>GROUP BY\<close>.\<close>

definition unique :: "'a list \<Rightarrow> 'a list" where
  "unique xs = rev (remdups (rev xs))"

definition mean :: "rat list \<Rightarrow> rat" where
  "mean xs = sum_list xs / of_nat (length xs)"

text \<open>\<open>round(x, 3)\<close>, ties to even.\<close>

definition round3 :: "rat \<Rightarrow> rat" where
  "round3 x = of_int (round_even (x * 1000)) / 1000"

section \<open>Alert generator (app/core/alert_generator.py)\<close>

text \<open>
  \<open>Series.value_counts()\<close>: the distinct values with their counts, most frequent first,
  ties in order of first occurrence.
\<close>

definition value_counts :: "string list \<Rightarrow> (string \<times> nat) list" where
  "value_counts xs =
     sort_key (\<lambda>p. - int (snd p)) (map (\<lambda>v. (v, count_list xs v)) (unique xs))"

definition generate_alert_message ::
    "AlertConfig \<Rightarrow> string \<Rightarrow> string \<Rightarrow> rat \<Rightarrow> nat \<Rightarrow> string" where
  "generate_alert_message self area_name cat sentiment source_count =
     (let intensity = (if sentiment \<le> high_threshold self then ''significantly''
                       else ''moderately'');
          tail = '' in '' @ area_name @ '' ('' @ show_nat source_count @ '' reports)'';
          messages = map_of
            [(''traffic'', ''Traffic-related complaints '' @ intensity @ '' increasing'' @ tail),
             (''crime'', ''Crime-related concerns '' @ intensity @ '' elevated'' @ tail),
             (''law_enforcement'',
                ''Law enforcement issues being '' @ intensity @ '' discussed'' @ tail),
             (''emergency'', ''Emergency-related incidents '' @ intensity @ '' reported'' @ tail),
             (''general'', ''General security sentiment '' @ intensity @ '' negative'' @ tail)]
      in dict_get messages cat (''Security concerns detected'' @ tail))"

definition make_alert ::
    "AlertConfig \<Rightarrow> int \<Rightarrow> string \<Rightarrow> SentimentData list \<Rightarrow> rat \<Rightarrow> rat \<Rightarrow> string
       \<Rightarrow> py_error + SecurityAlert option" where
  "make_alert self now area_name area_data avg_sentiment conf sev =
     (case value_counts (map category area_data) of
        [] \<Rightarrow> Inl IndexError
      | (primary_category, n) # others \<Rightarrow>
          Inr (Some \<lparr> area = area_name,
                       message = generate_alert_message self area_name primary_category
                                   avg_sentiment (length area_data),
                       severity = sev,
                       alert_confidence = conf,
                       alert_type = primary_category,
                       alert_timestamp = now,
                       resolved = False \<rparr>))"

text \<open>
  One iteration of the loop over \<open>df['location'].unique()\<close>: an error, no alert
  (\<open>continue\<close>), or the alert that is appended.
\<close>

definition area_alert ::
    "AlertConfig \<Rightarrow> int \<Rightarrow> SentimentData list \<Rightarrow> string \<Rightarrow> py_error + SecurityAlert option" where
  "area_alert self now df area_name =
     (if area_name = ''Unknown'' then Inr None
      else
        (let area_data = filter (\<lambda>r. location r = area_name) df in
         if length area_data < minimum_sources self then Inr None
         else
           (let avg_sentiment = mean (map adjusted_sentiment area_data);
                conf = mean (map confidence area_data) in
            if avg_sentiment \<le> high_threshold self
            then make_alert self now area_name area_data avg_sentiment conf ''high''
            else if avg_sentiment \<le> medium_threshold self
            then make_alert self now area_name area_data avg_sentiment conf ''medium''
            else Inr None)))"

text \<open>
  The loop. An exception leaves it through the handler, which logs it, and the alerts
  collected so far are returned.
\<close>

fun alerts_loop ::
    "AlertConfig \<Rightarrow> int \<Rightarrow> SentimentData list \<Rightarrow> string list \<Rightarrow> SecurityAlert list
       \<Rightarrow> SecurityAlert list" where
  "alerts_loop self now df [] alerts = alerts"
| "alerts_loop self now df (area_name # rest) alerts =
     (case area_alert self now df area_name of
        Inl e \<Rightarrow> alerts
      | Inr None \<Rightarrow> alerts_loop self now df rest alerts
      | Inr (Some alert) \<Rightarrow> alerts_loop self now df rest (alerts @ [alert]))"

definition generate_alerts ::
    "AlertConfig \<Rightarrow> int \<Rightarrow> SentimentData list \<Rightarrow> SecurityAlert list" where
  "generate_alerts self now sentiment_data =
     (if sentiment_data = [] then []
      else alerts_loop self now sentiment_data (unique (map location sentiment_data)) [])"

section \<open>Database manager (app/database/manager.py)\<close>

text \<open>
  The store is the two tables, or it is unavailable: connecting or reading raises.
\<close>

datatype database = Database "SentimentData list" "SecurityAlert list" | Unavailable

definition seconds :: "int \<Rightarrow> int" where
  "seconds hours = hours * 3600"

definition get_recent_sentiment :: "database \<Rightarrow> int \<Rightarrow> int \<Rightarrow> SentimentData list" where
  "get_recent_sentiment db now hours =
     (case db of
        Unavailable \<Rightarrow> []
      | Database rows alert_rows \<Rightarrow>
          (let since = now - seconds hours in
           sort_key (\<lambda>r. - timestamp r) (filter (\<lambda>r. timestamp r > since) rows)))"

definition get_active_alerts :: "database \<Rightarrow> int \<Rightarrow> SecurityAlert list" where
  "get_active_alerts db now =
     (case db of
        Unavailable \<Rightarrow> []
      | Database rows alert_rows \<Rightarrow>
          (let since = now - seconds 24 in
           sort_key (\<lambda>a. - alert_timestamp a)
             (filter (\<lambda>a. alert_timestamp a > since \<and> resolved a = False) alert_rows)))"

record AreaRow =
  ar_area :: string
  ar_sentiment :: rat
  ar_sources :: nat
  ar_confidence :: rat
  crime_reports :: nat
  traffic_reports :: nat

text \<open>The rows selected by the \<open>WHERE\<close> clause of the area query.\<close>

definition area_window :: "SentimentData list \<Rightarrow> int \<Rightarrow> SentimentData list" where
  "area_window rows since =
     filter (\<lambda>r. timestamp r > since \<and> location r \<noteq> ''Unknown'') rows"

definition area_group :: "SentimentData list \<Rightarrow> string \<Rightarrow> SentimentData list" where
  "area_group selected a = filter (\<lambda>r. location r = a) selected"

definition area_row :: "SentimentData list \<Rightarrow> string \<Rightarrow> AreaRow" where
  "area_row selected a =
     (let g = area_group selected a in
      \<lparr> ar_area = a,
        ar_sentiment = round3 (mean (map adjusted_sentiment g)),
        ar_sources = length g,
        ar_confidence = round3 (mean (map confidence g)),
        crime_reports = length (filter (\<lambda>r. category r = ''crime'') g),
        traffic_reports = length (filter (\<lambda>r. category r = ''traffic'') g) \<rparr>)"

definition get_area_analysis :: "database \<Rightarrow> int \<Rightarrow> int \<Rightarrow> AreaRow list" where
  "get_area_analysis db now hours =
     (case db of
        Unavailable \<Rightarrow> []
      | Database rows alert_rows \<Rightarrow>
          (let since = now - seconds hours;
               selected = area_window rows since;
               ordered = sort_key (\<lambda>a. mean (map adjusted_sentiment (area_group selected a)))
                           (unique (map location selected))
           in map (area_row selected) ordered))"

text \<open>The stored records of an area that are younger than \<open>since\<close>.\<close>

definition records_of_area :: "SentimentData list \<Rightarrow> int \<Rightarrow> string \<Rightarrow> SentimentData list" where
  "records_of_area rows since a = filter (\<lambda>r. timestamp r > since \<and> location r = a) rows"

section \<open>Analysis coordinator (app/core/sentiment_analyzer.py)\<close>

record Status =
  overall_sentiment :: rat
  status_raw_sentiment :: rat
  status_confidence :: rat
  total_sources :: nat
  active_alerts :: nat
  last_update :: "int option"
  status :: string
  error :: "py_error option"

text \<open>\<open>sum(xs) / len(xs)\<close>, which raises on an empty list.\<close>

definition average :: "rat list \<Rightarrow> py_error + rat" where
  "average xs = (if length xs = 0 then Inl ZeroDivisionError
     else Inr (sum_list xs / of_nat (length xs)))"

definition no_data_status :: Status where
  "no_data_status = \<lparr> overall_sentiment = 0, status_raw_sentiment = 0, status_confidence = 0,
     total_sources = 0, active_alerts = 0, last_update = None, status = ''no_data'',
     error = None \<rparr>"

definition error_status :: "py_error \<Rightarrow> Status" where
  "error_status e = \<lparr> overall_sentiment = 0, status_raw_sentiment = 0, status_confidence = 0,
     total_sources = 0, active_alerts = 0, last_update = None, status = ''error'',
     error = Some e \<rparr>"

text \<open>The body of the \<open>try\<close> block of \<open>get_current_status\<close>.\<close>

definition current_status_body :: "database \<Rightarrow> int \<Rightarrow> py_error + Status" where
  "current_status_body db now =
     (let recent_data = get_recent_sentiment db now 24;
          alerts = get_active_alerts db now in
      if recent_data = [] then Inr no_data_status
      else
        (case average (map adjusted_sentiment recent_data) of
           Inl e \<Rightarrow> Inl e
         | Inr overall \<Rightarrow>
        (case average (map raw_sentiment recent_data) of
           Inl e \<Rightarrow> Inl e
         | Inr raw \<Rightarrow>
        (case average (map confidence recent_data) of
           Inl e \<Rightarrow> Inl e
         | Inr avg_confidence \<Rightarrow>
             Inr \<lparr> overall_sentiment = round3 overall,
                   status_raw_sentiment = round3 raw,
                   status_confidence = round3 avg_confidence,
                   total_sources = length recent_data,
                   active_alerts = length alerts,
                   last_update = (case recent_data of [] \<Rightarrow> None
                                  | r # rs \<Rightarrow> Some (timestamp r)),
                   status = ''healthy'',
                   error = None \<rparr>))))"

definition get_current_status :: "database \<Rightarrow> int \<Rightarrow> Status" where
  "get_current_status db now =
     (case current_status_body db now of Inl e \<Rightarrow> error_status e | Inr st \<Rightarrow> st)"

section \<open>Properties of the rounding\<close>

lemma bitlen_powi_bounds:
  assumes "0 < p"
  shows "(2::rat) powi (bitlen p - 1) \<le> of_int p" and "of_int p < (2::rat) powi (bitlen p)"
proof -
  from bitlen_bounds[OF assms] have a: "2 ^ nat (bitlen p - 1) \<le> p" and b: "p < 2 ^ nat (bitlen p)"
    by auto
  have ge1: "1 \<le> bitlen p" using assms by (auto simp: bitlen_alt_def)
  from a have "(of_int (2 ^ nat (bitlen p - 1)) :: rat) \<le> of_int p"
    by (simp only: of_int_le_iff)
  then show "(2::rat) powi (bitlen p - 1) \<le> of_int p"
    using ge1 by (simp add: power_int_nonneg_exp)
  from b have "(of_int p :: rat) < of_int (2 ^ nat (bitlen p))"
    by (simp only: of_int_less_iff)
  then show "of_int p < (2::rat) powi (bitlen p)"
    using ge1 by (simp add: power_int_nonneg_exp)
qed

lemma ilog2_bounds:
  assumes "0 < x"
  shows "2 powi (ilog2 x) \<le> x" and "x < 2 powi (ilog2 x + 1)"
proof -
  obtain p q where pq: "quotient_of x = (p, q)" by (cases "quotient_of x")
  then have q: "0 < q" and x: "x = of_int p / of_int q"
    using quotient_of_denom_pos quotient_of_div by auto
  from assms x q have p: "0 < p" by (simp add: zero_less_divide_iff)
  define e where "e = bitlen p - bitlen q"
  note P = bitlen_powi_bounds[OF p] and Q = bitlen_powi_bounds[OF q]
  have qpos: "(0::rat) < of_int q" using q by simp
  have lo: "2 powi (e - 1) \<le> x"
  proof -
    have "(2::rat) powi (e - 1) = 2 powi (bitlen p - 1) / 2 powi (bitlen q)"
      unfolding e_def by (simp add: power_int_diff)
    also have "\<dots> \<le> of_int p / 2 powi (bitlen q)"
      using P(1) by (simp add: divide_right_mono)
    also have "\<dots> \<le> of_int p / of_int q"
      using Q(2) qpos p by (simp add: frac_le)
    finally show ?thesis using x by simp
  qed
  have hi: "x < 2 powi (e + 1)"
  proof -
    have "x = of_int p / of_int q" by (rule x)
    also have "\<dots> < 2 powi (bitlen p) / of_int q"
      using P(2) qpos by (simp add: divide_strict_right_mono)
    also have "\<dots> \<le> 2 powi (bitlen p) / 2 powi (bitlen q - 1)"
      using Q(1) by (simp add: frac_le)
    also have "\<dots> = 2 powi (e + 1)"
      unfolding e_def by (simp add: power_int_diff power_int_add field_simps)
    finally show ?thesis .
  qed
  have il: "ilog2 x = (if 2 powi e \<le> x then e else e - 1)"
    unfolding ilog2_def pq e_def by (simp add: Let_def)
  show "2 powi (ilog2 x) \<le> x" using lo il by auto
  show "x < 2 powi (ilog2 x + 1)" using hi il by (auto simp: not_le)
qed

lemma powi2_less_imp:
  assumes "(2::rat) powi m < 2 powi n"
  shows "m < n"
proof (rule ccontr)
  assume "\<not> m < n"
  then have "n \<le> m" by simp
  then have "(2::rat) powi n \<le> 2 powi m" by (intro power_int_increasing) auto
  with assms show False by simp
qed

lemma ilog2_unique:
  assumes "0 < x" "2 powi e \<le> x" "x < 2 powi (e + 1)"
  shows "ilog2 x = e"
proof -
  note B = ilog2_bounds[OF assms(1)]
  have "(2::rat) powi (ilog2 x) < 2 powi (e + 1)" using B(1) assms(3) by simp
  then have 1: "ilog2 x < e + 1" by (rule powi2_less_imp)
  have "(2::rat) powi e < 2 powi (ilog2 x + 1)" using B(2) assms(2) by simp
  then have 2: "e < ilog2 x + 1" by (rule powi2_less_imp)
  from 1 2 show ?thesis by simp
qed

lemma round_even_err: "\<bar>of_int (round_even z) - z\<bar> \<le> 1 / 2"
proof -
  have a: "of_int \<lfloor>z\<rfloor> \<le> z" and b: "z < of_int \<lfloor>z\<rfloor> + 1"
    by linarith+
  show ?thesis
    unfolding round_even_def Let_def using a b by (simp add: abs_le_iff)
qed

text \<open>Rounding to a grid of spacing \<open>2 powi q\<close> moves a value by at most half a step.\<close>

lemma grid_err:
  "\<bar>of_int (round_even (x / 2 powi q)) * 2 powi q - x\<bar> \<le> 2 powi (q - 1)"
proof -
  have pos: "(0::rat) < 2 powi q" by simp
  have "of_int (round_even (x / 2 powi q)) * 2 powi q - x
          = (of_int (round_even (x / 2 powi q)) - x / 2 powi q) * 2 powi q"
    using pos by (simp add: field_simps)
  then have "\<bar>of_int (round_even (x / 2 powi q)) * 2 powi q - x\<bar>
          = \<bar>of_int (round_even (x / 2 powi q)) - x / 2 powi q\<bar> * 2 powi q"
    using pos by (simp add: abs_mult)
  also have "\<dots> \<le> (1 / 2) * 2 powi q"
    using round_even_err[of "x / 2 powi q"] pos by (intro mult_right_mono) auto
  also have "\<dots> = 2 powi (q - 1)" by (simp add: power_int_diff)
  finally show ?thesis .
qed

lemma round_double_err:
  assumes "\<bar>x\<bar> < 2 powi k" "- 1021 \<le> k" "k \<le> 1023"
  shows "\<exists>y. round_double x = Finite y \<and> \<bar>y - x\<bar> \<le> 2 powi (k - 54)"
proof (cases "x = 0")
  case True
  then show ?thesis by (simp add: round_double_def)
next
  case False
  then have ax: "0 < \<bar>x\<bar>" by simp
  define q where "q = max (ilog2 \<bar>x\<bar>) (- 1022) - 52"
  define r :: rat where "r = of_int (round_even (x / 2 powi q)) * 2 powi q"
  have "(2::rat) powi (ilog2 \<bar>x\<bar>) < 2 powi k"
    using ilog2_bounds(1)[OF ax] assms(1) by simp
  then have "ilog2 \<bar>x\<bar> < k" by (rule powi2_less_imp)
  then have qk: "q - 1 \<le> k - 54" using assms(2) by (simp add: q_def)
  have "\<bar>r - x\<bar> \<le> 2 powi (q - 1)" unfolding r_def by (rule grid_err)
  also have "\<dots> \<le> 2 powi (k - 54)" using qk by (intro power_int_increasing) auto
  finally have err: "\<bar>r - x\<bar> \<le> 2 powi (k - 54)" .
  have "(2::rat) powi (k - 54) \<le> 2 powi k" by (intro power_int_increasing) auto
  then have "\<bar>r\<bar> < 2 powi k + 2 powi k" using err assms(1) by linarith
  also have "\<dots> = 2 powi (k + 1)" by (simp add: power_int_add)
  also have "\<dots> \<le> 2 powi 1024" using assms(3) by (intro power_int_increasing) auto
  finally have "\<bar>r\<bar> < 2 powi 1024" .
  then have "round_double x = Finite r"
    using False unfolding round_double_def Let_def q_def[symmetric] r_def[symmetric]
    by (simp add: abs_less_iff not_le) 
  with err show ?thesis by blast
qed

lemma round_even_eq:
  assumes "\<bar>z - of_int n\<bar> \<le> 1 / 2" and "\<bar>z - of_int n\<bar> = 1 / 2 \<longrightarrow> even n"
  shows "round_even z = n"
proof -
  have a: "of_int \<lfloor>z\<rfloor> \<le> z" and b: "z < of_int \<lfloor>z\<rfloor> + 1"
    by linarith+
  from assms(1) have lo: "of_int n - 1 / 2 \<le> z" and hi: "z \<le> of_int n + 1 / 2"
    by linarith+
  have "of_int \<lfloor>z\<rfloor> < (of_int n :: rat) + 1" using a hi by linarith
  then have "of_int \<lfloor>z\<rfloor> < (of_int (n + 1) :: rat)" by simp
  then have f1: "\<lfloor>z\<rfloor> < n + 1" by (simp only: of_int_less_iff)
  have "(of_int n :: rat) - 1 < of_int \<lfloor>z\<rfloor> + 1" using b lo by linarith
  then have "(of_int (n - 1) :: rat) < of_int (\<lfloor>z\<rfloor> + 1)" by simp
  then have f2: "n - 1 < \<lfloor>z\<rfloor> + 1" by (simp only: of_int_less_iff)
  from f1 f2 consider "\<lfloor>z\<rfloor> = n" | "\<lfloor>z\<rfloor> = n - 1" by linarith
  then show ?thesis
  proof cases
    case 1
    have "z - of_int n = 1 / 2 \<longrightarrow> even n" using assms(2) by simp
    then show ?thesis using 1 hi unfolding round_even_def Let_def by auto
  next
    case 2
    have "z - of_int n = - (1 / 2) \<longrightarrow> even n" using assms(2) by simp
    then show ?thesis using 2 lo unfolding round_even_def Let_def by auto
  qed
qed

lemma round_double_eq:
  assumes "x \<noteq> 0" "2 powi e \<le> \<bar>x\<bar>" "\<bar>x\<bar> < 2 powi (e + 1)" "- 1022 \<le> e" "e \<le> 1022"
    and "\<bar>x / 2 powi (e - 52) - of_int n\<bar> \<le> 1 / 2"
    and "\<bar>x / 2 powi (e - 52) - of_int n\<bar> = 1 / 2 \<longrightarrow> even n"
  shows "round_double x = Finite (of_int n * 2 powi (e - 52))"
proof -
  have ax: "0 < \<bar>x\<bar>" using assms(1) by simp
  have il: "ilog2 \<bar>x\<bar> = e" using ax assms(2,3) by (rule ilog2_unique)
  from round_double_err[OF assms(3)] assms(4,5)
  obtain y where y: "round_double x = Finite y" by auto
  have q: "max (ilog2 \<bar>x\<bar>) (- 1022) - 52 = e - 52" using il assms(4) by simp
  have n: "round_even (x / 2 powi (e - 52)) = n" using assms(6,7) by (rule round_even_eq)
  show ?thesis
    using y assms(1) n unfolding round_double_def Let_def q
    by (auto split: if_splits)
qed

text \<open>The literals of the calibration table and the arithmetic of the documented points.\<close>

lemma lit_1: "float_lit 1 = Finite 1"
  unfolding float_lit_def
  by (rule round_double_eq[where e = "0" and n = "4503599627370496", THEN trans]) simp_all

lemma lit_07: "float_lit (7 / 10) = Finite (3152519739159347 / 4503599627370496)"
  unfolding float_lit_def
  by (rule round_double_eq[where e = "- 1" and n = "6305039478318694", THEN trans]) simp_all

lemma lit_08: "float_lit (4 / 5) = Finite (3602879701896397 / 4503599627370496)"
  unfolding float_lit_def
  by (rule round_double_eq[where e = "- 1" and n = "7205759403792794", THEN trans]) simp_all

lemma lit_06: "float_lit (3 / 5) = Finite (5404319552844595 / 9007199254740992)"
  unfolding float_lit_def
  by (rule round_double_eq[where e = "- 1" and n = "5404319552844595", THEN trans]) simp_all

lemma lit_12: "float_lit (6 / 5) = Finite (5404319552844595 / 4503599627370496)"
  unfolding float_lit_def
  by (rule round_double_eq[where e = "0" and n = "5404319552844595", THEN trans]) simp_all

lemma lit_11: "float_lit (11 / 10) = Finite (2476979795053773 / 2251799813685248)"
  unfolding float_lit_def
  by (rule round_double_eq[where e = "0" and n = "4953959590107546", THEN trans]) simp_all

lemma lit_neg_035: "float_lit (- (7 / 20)) = Finite (- (3152519739159347 / 9007199254740992))"
  unfolding float_lit_def
  by (rule round_double_eq[where e = "- 2" and n = "- 6305039478318694", THEN trans]) simp_all

lemma lit_neg_025: "float_lit (- (1 / 4)) = Finite (- (1 / 4))"
  unfolding float_lit_def
  by (rule round_double_eq[where e = "- 2" and n = "- 4503599627370496", THEN trans]) simp_all

lemma lit_neg_045: "float_lit (- (9 / 20)) = Finite (- (8106479329266893 / 18014398509481984))"
  unfolding float_lit_def
  by (rule round_double_eq[where e = "- 2" and n = "- 8106479329266893", THEN trans]) simp_all

lemma lit_neg_005: "float_lit (- (1 / 20)) = Finite (- (3602879701896397 / 72057594037927936))"
  unfolding float_lit_def
  by (rule round_double_eq[where e = "- 5" and n = "- 7205759403792794", THEN trans]) simp_all

lemma lit_neg_015: "float_lit (- (3 / 20)) = Finite (- (5404319552844595 / 36028797018963968))"
  unfolding float_lit_def
  by (rule round_double_eq[where e = "- 3" and n = "- 5404319552844595", THEN trans]) simp_all

lemma lit_neg_02: "float_lit (- (1 / 5)) = Finite (- (3602879701896397 / 18014398509481984))"
  unfolding float_lit_def
  by (rule round_double_eq[where e = "- 3" and n = "- 7205759403792794", THEN trans]) simp_all

lemma lit_neg_06: "float_lit (- (3 / 5)) = Finite (- (5404319552844595 / 9007199254740992))"
  unfolding float_lit_def
  by (rule round_double_eq[where e = "- 1" and n = "- 5404319552844595", THEN trans]) simp_all

lemma lit_neg_0525: "float_lit (- (21 / 40)) = Finite (- (4728779608739021 / 9007199254740992))"
  unfolding float_lit_def
  by (rule round_double_eq[where e = "- 1" and n = "- 4728779608739021", THEN trans]) simp_all

lemma lit_0045: "float_lit (9 / 200) = Finite (3242591731706757 / 72057594037927936)"
  unfolding float_lit_def
  by (rule round_double_eq[where e = "- 5" and n = "6485183463413514", THEN trans]) simp_all

lemma tw_normalized:
  "fadd (Finite (- (5404319552844595 / 9007199254740992)))
     (Finite (3152519739159347 / 9007199254740992))
   = Finite (- (1 / 4))"
  unfolding fadd.simps
  by (rule round_double_eq[where e = "- 2" and n = "- 4503599627370496", THEN trans]) simp_all

lemma tw_scaled:
  "fmul (Finite (- (1 / 4))) (Finite (3152519739159347 / 4503599627370496))
   = Finite (- (3152519739159347 / 18014398509481984))"
  unfolding fmul.simps
  by (rule round_double_eq[where e = "- 3" and n = "- 6305039478318694", THEN trans]) simp_all

lemma tw_adjusted:
  "fadd (Finite (- (3152519739159347 / 18014398509481984)))
     (Finite (- (3152519739159347 / 9007199254740992)))
   = Finite (- (1182194902184755 / 2251799813685248))"
  unfolding fadd.simps
  by (rule round_double_eq[where e = "- 1" and n = "- 4728779608739020", THEN trans]) simp_all

lemma nw_normalized:
  "fadd (Finite 0) (Finite (8106479329266893 / 18014398509481984))
   = Finite (8106479329266893 / 18014398509481984)"
  unfolding fadd.simps
  by (rule round_double_eq[where e = "- 2" and n = "8106479329266893", THEN trans]) simp_all

lemma nw_scaled:
  "fmul (Finite (8106479329266893 / 18014398509481984))
     (Finite (2476979795053773 / 2251799813685248))
   = Finite (8917127262193583 / 18014398509481984)"
  unfolding fmul.simps
  by (rule round_double_eq[where e = "- 2" and n = "8917127262193583", THEN trans]) simp_all

lemma nw_adjusted:
  "fadd (Finite (8917127262193583 / 18014398509481984))
     (Finite (- (8106479329266893 / 18014398509481984)))
   = Finite (405323966463345 / 9007199254740992)"
  unfolding fadd.simps
  by (rule round_double_eq[where e = "- 5" and n = "6485183463413520", THEN trans]) simp_all

lemma un_normalized:
  "fadd (Finite (- (3602879701896397 / 72057594037927936)))
     (Finite (3602879701896397 / 18014398509481984))
   = Finite (1351079888211149 / 9007199254740992)"
  unfolding fadd.simps
  by (rule round_double_eq[where e = "- 3" and n = "5404319552844596", THEN trans]) simp_all

lemma un_scaled:
  "fmul (Finite (1351079888211149 / 9007199254740992)) (Finite 1)
   = Finite (1351079888211149 / 9007199254740992)"
  unfolding fmul.simps
  by (rule round_double_eq[where e = "- 3" and n = "5404319552844596", THEN trans]) simp_all

lemma un_adjusted:
  "fadd (Finite (1351079888211149 / 9007199254740992))
     (Finite (- (3602879701896397 / 18014398509481984)))
   = Finite (- (900719925474099 / 18014398509481984))"
  unfolding fadd.simps
  by (rule round_double_eq[where e = "- 5" and n = "- 7205759403792792", THEN trans]) simp_all

section \<open>The bias corrector: bounds and documented points\<close>

lemma clamp_in_bounds: "in_bounds (py_max (Finite (- 1)) (py_min (Finite 1) a))"
  by (cases a) (simp_all add: py_max_def py_min_def in_bounds_def)

lemma clamp_near:
  assumes "- 1 \<le> r" "r \<le> 1"
  shows "\<exists>y. py_max (Finite (- 1)) (py_min (Finite 1) (Finite a)) = Finite y \<and> \<bar>y - r\<bar> \<le> \<bar>a - r\<bar>"
  using assms by (auto simp: py_max_def py_min_def)

lemma tw_value:
  "adjust_sentiment bias_config (float_lit (- (6 / 10))) ''twitter''
     = Finite (- (1182194902184755 / 2251799813685248))"
  unfolding adjust_sentiment_def Let_def
  by (simp add: dict_get_def bias_config_def fsub_def py_max_def py_min_def
      lit_neg_06 lit_neg_035 lit_07 tw_normalized tw_scaled tw_adjusted
      del: fadd.simps fmul.simps)

lemma nw_value:
  "adjust_sentiment bias_config (float_lit 0) ''news''
     = Finite (405323966463345 / 9007199254740992)"
  unfolding adjust_sentiment_def Let_def
  by (simp add: dict_get_def bias_config_def fsub_def py_max_def py_min_def
      float_lit_def[of 0] round_double_def[of 0] lit_neg_045 lit_11 nw_normalized nw_scaled nw_adjusted
      del: fadd.simps fmul.simps)

lemma un_value:
  "adjust_sentiment bias_config (float_lit (- (5 / 100))) ''reddit''
     = Finite (- (900719925474099 / 18014398509481984))"
  unfolding adjust_sentiment_def Let_def
  by (simp add: dict_get_def bias_config_def fsub_def py_max_def py_min_def
      lit_neg_005 lit_neg_02 lit_1 un_normalized un_scaled un_adjusted
      del: fadd.simps fmul.simps)

lemma identity_core:
  assumes b: "- (1 / 4) \<le> b" "b \<le> - (1 / 8)" and r: "- 1 \<le> r" "r < 0"
  shows "\<exists>y. py_max (Finite (- 1)) (py_min (Finite 1)
            (fadd (fmul (fsub (Finite r) (Finite b)) (Finite 1)) (Finite b))) = Finite y
          \<and> \<bar>y - r\<bar> \<le> 2 powi (- 52)"
proof -
  have "\<bar>r - b\<bar> < 1" using b r by linarith
  then have "\<bar>r - b\<bar> < 2 powi 0" by simp
  from round_double_err[OF this]
  obtain n1 where n1: "round_double (r - b) = Finite n1"
    and e1: "\<bar>n1 - (r - b)\<bar> \<le> 2 powi (- 54)" by auto
  have e1': "\<bar>n1 - (r - b)\<bar> \<le> 1 / 18014398509481984" using e1 by simp
  have "\<bar>n1\<bar> < 1" using e1' b r by linarith
  then have "\<bar>n1\<bar> < 2 powi 0" by simp
  from round_double_err[OF this]
  obtain n2 where n2: "round_double n1 = Finite n2"
    and e2: "\<bar>n2 - n1\<bar> \<le> 2 powi (- 54)" by auto
  have e2': "\<bar>n2 - n1\<bar> \<le> 1 / 18014398509481984" using e2 by simp
  have "\<bar>n2 + b\<bar> < 2" using e1' e2' b r by linarith
  then have "\<bar>n2 + b\<bar> < 2 powi 1" by simp
  from round_double_err[OF this]
  obtain y0 where y0: "round_double (n2 + b) = Finite y0"
    and e3: "\<bar>y0 - (n2 + b)\<bar> \<le> 2 powi (- 53)" by auto
  have e3': "\<bar>y0 - (n2 + b)\<bar> \<le> 1 / 9007199254740992" using e3 by simp
  have "\<bar>y0 - r\<bar> \<le> 1 / 4503599627370496" using e1' e2' e3' by linarith
  then have tot: "\<bar>y0 - r\<bar> \<le> 2 powi (- 52)" by simp
  have eq: "fadd (fmul (fsub (Finite r) (Finite b)) (Finite 1)) (Finite b) = Finite y0"
    by (simp add: fsub_def n1 n2 y0)
  from clamp_near[of r y0] r obtain y
    where "py_max (Finite (- 1)) (py_min (Finite 1) (Finite y0)) = Finite y" "\<bar>y - r\<bar> \<le> \<bar>y0 - r\<bar>"
    by auto
  with tot eq show ?thesis by auto
qed

section \<open>The bias corrector: claims\<close>

text \<open>
  Claim C2. For every source and every raw score in \<open>[-1, 1]\<close>, \<open>adjust_sentiment\<close>
  returns a value in \<open>[-1, 1]\<close>, whatever the calibration table holds.
\<close>

theorem adjust_sentiment_clamped:
  "in_bounds raw \<Longrightarrow> in_bounds (adjust_sentiment self raw src)"
  unfolding adjust_sentiment_def Let_def by (rule clamp_in_bounds)

theorem adjust_sentiment_clamped_witness:
  "in_bounds (float_lit (- (6 / 10)))
   \<and> in_bounds (adjust_sentiment bias_config (float_lit (- (6 / 10))) ''twitter'')"
proof -
  have h: "in_bounds (float_lit (- (6 / 10)))" by (simp add: lit_neg_06 in_bounds_def)
  from adjust_sentiment_clamped[OF h] h show ?thesis by simp
qed

text \<open>
  The documented test points are not reproduced exactly. On doubles the sum of the
  scaled score \<open>-0.175\<close> and the baseline \<open>-0.35\<close> lies half way between two doubles
  and is rounded to the even one, \<open>-0.5249999999999999\<close>, which is not the double
  denoted by \<open>-0.525\<close>; the boost of \<open>0.0\<close> from \<open>news\<close> is \<open>0.04500000000000004\<close>,
  not the double denoted by \<open>0.045\<close>.
\<close>

theorem documented_points_counterexample:
  "adjust_sentiment bias_config (float_lit (- (6 / 10))) ''twitter'' \<noteq> float_lit (- (525 / 1000))
   \<and> adjust_sentiment bias_config (float_lit 0) ''news'' \<noteq> float_lit (45 / 1000)"
  unfolding tw_value nw_value by (simp add: lit_neg_0525 lit_0045)

text \<open>
  Claim C3, amended. \<open>adjust_sentiment(-0.6, "twitter")\<close> takes the negative branch with
  factor \<open>0.7\<close> and baseline \<open>-0.35\<close> and returns the double \<open>-0.5249999999999999\<close>,
  within \<open>2\<^sup>-\<^sup>5\<^sup>3\<close> of \<open>-0.525\<close>; \<open>adjust_sentiment(0.0, "news")\<close> takes the boost branch
  with factor \<open>1.1\<close> and baseline \<open>-0.45\<close> and returns the double
  \<open>0.04500000000000004\<close>, within \<open>2\<^sup>-\<^sup>5\<^sup>4\<close> of \<open>0.045\<close>.
\<close>

theorem documented_points_rounded:
  "adjust_sentiment bias_config (float_lit (- (6 / 10))) ''twitter''
     = py_max (Finite (- 1)) (py_min (Finite 1)
         (fadd (fmul (fsub (float_lit (- (6 / 10))) (float_lit (- (35 / 100))))
                  (float_lit (7 / 10))) (float_lit (- (35 / 100)))))
   \<and> adjust_sentiment bias_config (float_lit (- (6 / 10))) ''twitter''
     = Finite (- (1182194902184755 / 2251799813685248))
   \<and> \<bar>- (1182194902184755 / 2251799813685248) - (- (525 / 1000) :: rat)\<bar> \<le> 2 powi (- 53)
   \<and> adjust_sentiment bias_config (float_lit 0) ''news''
     = py_max (Finite (- 1)) (py_min (Finite 1)
         (fadd (fmul (fsub (float_lit 0) (float_lit (- (45 / 100))))
                  (float_lit (11 / 10))) (float_lit (- (45 / 100)))))
   \<and> adjust_sentiment bias_config (float_lit 0) ''news''
     = Finite (405323966463345 / 9007199254740992)
   \<and> \<bar>405323966463345 / 9007199254740992 - (45 / 1000 :: rat)\<bar> \<le> 2 powi (- 54)"
proof -
  have neg: "flt (float_lit (- (6 / 10))) (Finite 0)" by (simp add: lit_neg_06)
  have nonneg: "\<not> flt (float_lit 0) (Finite 0)" by (simp add: float_lit_def round_double_def)
  have a: "adjust_sentiment bias_config (float_lit (- (6 / 10))) ''twitter''
     = py_max (Finite (- 1)) (py_min (Finite 1)
         (fadd (fmul (fsub (float_lit (- (6 / 10))) (float_lit (- (35 / 100))))
                  (float_lit (7 / 10))) (float_lit (- (35 / 100)))))"
    unfolding adjust_sentiment_def Let_def using neg
    by (simp add: dict_get_def bias_config_def del: fadd.simps fmul.simps)
  have b: "adjust_sentiment bias_config (float_lit 0) ''news''
     = py_max (Finite (- 1)) (py_min (Finite 1)
         (fadd (fmul (fsub (float_lit 0) (float_lit (- (45 / 100))))
                  (float_lit (11 / 10))) (float_lit (- (45 / 100)))))"
    unfolding adjust_sentiment_def Let_def using nonneg
    by (simp add: dict_get_def bias_config_def del: fadd.simps fmul.simps)
  have c: "\<bar>- (1182194902184755 / 2251799813685248) - (- (525 / 1000) :: rat)\<bar> \<le> 2 powi (- 53)"
    by simp
  have d: "\<bar>405323966463345 / 9007199254740992 - (45 / 1000 :: rat)\<bar> \<le> 2 powi (- 54)"
    by simp
  from a b c d tw_value nw_value show ?thesis by (intro conjI)
qed

text \<open>
  Claim C9. \<open>adjust_sentiment\<close> is total: for every calibration table, every source,
  known or not, and every float, including the infinities and NaN, it returns a finite
  value in \<open>[-1, 1]\<close>. The model has no error branch because the source has none: a
  missing key resolves to the default and the result is clamped unconditionally.
\<close>

theorem adjust_sentiment_total: "in_bounds (adjust_sentiment self raw src)"
  unfolding adjust_sentiment_def Let_def by (rule clamp_in_bounds)

text \<open>
  With factor \<open>1.0\<close> the negative branch is the identity only in exact arithmetic: the
  double \<open>-0.05\<close> from an unknown source comes back as \<open>-0.04999999999999999\<close>.
\<close>

theorem unit_factor_counterexample:
  "dict_get (adjustment_factors bias_config) ''reddit'' (float_lit 1) = float_lit 1
   \<and> float_lit (- (5 / 100)) = Finite (- (3602879701896397 / 72057594037927936))
   \<and> adjust_sentiment bias_config (float_lit (- (5 / 100))) ''reddit'' \<noteq> float_lit (- (5 / 100))"
  unfolding un_value by (simp add: lit_neg_005 dict_get_def bias_config_def)

lemma unit_factor_baseline:
  assumes "dict_get (adjustment_factors bias_config) src (float_lit 1) = float_lit 1"
  shows "dict_get (baseline_negativity bias_config) src (float_lit (- (2 / 10)))
           = Finite (- (5404319552844595 / 36028797018963968))
         \<or> dict_get (baseline_negativity bias_config) src (float_lit (- (2 / 10)))
           = Finite (- (3602879701896397 / 18014398509481984))"
  using assms
  by (simp add: dict_get_def bias_config_def lit_1 lit_07 lit_08 lit_06 lit_12
        lit_neg_015 lit_neg_02 split: if_splits)

text \<open>
  Claim C10, amended. For every source whose adjustment factor is \<open>1.0\<close> in the default
  calibration (\<open>community\<close> and every unknown source) and every raw score in \<open>[-1, 0)\<close>,
  \<open>adjust_sentiment\<close> returns the raw score up to the rounding of the three float
  operations: the result differs from it by at most \<open>2\<^sup>-\<^sup>5\<^sup>2\<close>.
\<close>

theorem unit_factor_near_identity:
  assumes "dict_get (adjustment_factors bias_config) src (float_lit 1) = float_lit 1"
    and "- 1 \<le> r" and "r < 0"
  shows "\<exists>y. adjust_sentiment bias_config (Finite r) src = Finite y
           \<and> \<bar>y - r\<bar> \<le> 2 powi (- 52)"
proof -
  have f: "dict_get (adjustment_factors bias_config) src (float_lit 1) = Finite 1"
    using assms(1) by (simp add: lit_1)
  from unit_factor_baseline[OF assms(1)]
  obtain b where b: "dict_get (baseline_negativity bias_config) src (float_lit (- (2 / 10)))
      = Finite b" and lo: "- (1 / 4) \<le> b" and hi: "b \<le> - (1 / 8)"
    by auto
  have neg: "flt (Finite r) (Finite 0)" using assms(3) by simp
  have "adjust_sentiment bias_config (Finite r) src
      = py_max (Finite (- 1)) (py_min (Finite 1)
          (fadd (fmul (fsub (Finite r) (Finite b)) (Finite 1)) (Finite b)))"
    unfolding adjust_sentiment_def Let_def f b using neg by simp
  with identity_core[OF lo hi assms(2,3)] show ?thesis by simp
qed

theorem unit_factor_near_identity_witness:
  "dict_get (adjustment_factors bias_config) ''reddit'' (float_lit 1) = float_lit 1
   \<and> - 1 \<le> (- (1 / 20) :: rat) \<and> (- (1 / 20) :: rat) < 0
   \<and> (\<exists>y. adjust_sentiment bias_config (Finite (- (1 / 20))) ''reddit'' = Finite y
           \<and> \<bar>y - (- (1 / 20))\<bar> \<le> 2 powi (- 52))"
proof -
  have h: "dict_get (adjustment_factors bias_config) ''reddit'' (float_lit 1) = float_lit 1"
    by (simp add: dict_get_def bias_config_def)
  have l: "- 1 \<le> (- (1 / 20) :: rat)" and u: "(- (1 / 20) :: rat) < 0" by simp_all
  from unit_factor_near_identity[OF h l u] h l u show ?thesis by blast
qed

section \<open>The text classifiers: claims\<close>

lemma robbery_traffic_jam:
  "any_in [''traffic'', ''road'', ''accident'', ''jam''] (lower ''robbery during traffic jam'')"
  "any_in [''crime'', ''theft'', ''robbery'', ''steal''] (lower ''robbery during traffic jam'')"
  by code_simp+

text \<open>
  Claim C6. \<open>categorize_security_issue\<close> tries the keyword sets in the order traffic,
  crime, law enforcement, emergency, and the first set with a hit decides; without a hit
  the category is general. So a text with a traffic keyword and a crime keyword is
  classified as traffic, and so is the text \<open>robbery during traffic jam\<close>.
\<close>

theorem category_priority:
  "(categorize_security_issue txt = ''traffic'')
     = any_in [''traffic'', ''road'', ''accident'', ''jam''] (lower txt)
   \<and> (categorize_security_issue txt = ''crime'')
     = (\<not> any_in [''traffic'', ''road'', ''accident'', ''jam''] (lower txt)
        \<and> any_in [''crime'', ''theft'', ''robbery'', ''steal''] (lower txt))
   \<and> (categorize_security_issue txt = ''law_enforcement'')
     = (\<not> any_in [''traffic'', ''road'', ''accident'', ''jam''] (lower txt)
        \<and> \<not> any_in [''crime'', ''theft'', ''robbery'', ''steal''] (lower txt)
        \<and> any_in [''police'', ''law'', ''arrest''] (lower txt))
   \<and> (categorize_security_issue txt = ''emergency'')
     = (\<not> any_in [''traffic'', ''road'', ''accident'', ''jam''] (lower txt)
        \<and> \<not> any_in [''crime'', ''theft'', ''robbery'', ''steal''] (lower txt)
        \<and> \<not> any_in [''police'', ''law'', ''arrest''] (lower txt)
        \<and> any_in [''emergency'', ''fire'', ''medical''] (lower txt))
   \<and> (categorize_security_issue txt = ''general'')
     = (\<not> any_in [''traffic'', ''road'', ''accident'', ''jam''] (lower txt)
        \<and> \<not> any_in [''crime'', ''theft'', ''robbery'', ''steal''] (lower txt)
        \<and> \<not> any_in [''police'', ''law'', ''arrest''] (lower txt)
        \<and> \<not> any_in [''emergency'', ''fire'', ''medical''] (lower txt))
   \<and> (any_in [''traffic'', ''road'', ''accident'', ''jam''] (lower txt)
        \<and> any_in [''crime'', ''theft'', ''robbery'', ''steal''] (lower txt)
        \<longrightarrow> categorize_security_issue txt = ''traffic'')
   \<and> categorize_security_issue ''robbery during traffic jam'' = ''traffic''"
proof -
  have lit: "categorize_security_issue ''robbery during traffic jam'' = ''traffic''"
    unfolding categorize_security_issue_def Let_def using robbery_traffic_jam(1) by simp
  show ?thesis
    unfolding lit unfolding categorize_security_issue_def Let_def by simp
qed

theorem category_priority_witness:
  "any_in [''traffic'', ''road'', ''accident'', ''jam''] (lower ''robbery during traffic jam'')
   \<and> any_in [''crime'', ''theft'', ''robbery'', ''steal''] (lower ''robbery during traffic jam'')
   \<and> categorize_security_issue ''robbery during traffic jam'' = ''traffic''"
  using category_priority[of "''robbery during traffic jam''"] robbery_traffic_jam by blast

text \<open>
  Claim C4. \<open>is_security_relevant\<close> adds the hits of the four keyword lists, and the
  words \<open>road\<close> and \<open>bridge\<close> stand in two of them. The text \<open>road\<close> holds one keyword
  of the table and no other, it counts two hits, and it is found relevant, against the
  comment of the source that a text is relevant if it has two or more keywords.
\<close>

theorem single_keyword_counted_twice:
  "keywords_present ''road'' = [''road''] \<and> is_security_relevant ''road''"
  by code_simp

text \<open>
  The predicate the collector itself applies, \<open>is_security_related\<close>, accepts a text on
  its first hit.
\<close>

lemma any_hit_is_related: "is_security_related ''theft''"
  by code_simp

lemma gbege_baba:
  "count_in pidgin_indicators (lower ''gbege baba'') = 1"
  "count_in yoruba_indicators (lower ''gbege baba'') = 1"
  by code_simp+

lemma gbege_baba_mama:
  "count_in pidgin_indicators (lower ''gbege baba mama'') = 1"
  "count_in yoruba_indicators (lower ''gbege baba mama'') = 2"
  by code_simp+

text \<open>
  The collector's own \<open>detect_language\<close> does not count: a hit of the pidgin list
  decides, whatever the yoruba list finds.
\<close>

lemma collector_first_list_wins: "detect_language ''gbege ija ole'' = ''pidgin''"
  by code_simp

text \<open>
  A text with one hit in each list is not classified as english: the second test of
  \<open>detect_nigerian_language\<close> asks only for a positive yoruba count.
\<close>

theorem tie_counterexample:
  "count_in pidgin_indicators (lower ''gbege baba'') = 1
   \<and> count_in yoruba_indicators (lower ''gbege baba'') = 1
   \<and> detect_nigerian_language ''gbege baba'' \<noteq> ''english''"
  unfolding detect_nigerian_language_def Let_def gbege_baba by simp

text \<open>
  Claim C5, amended. \<open>detect_nigerian_language\<close> counts the hits of the two lists and
  returns pidgin when the pidgin count is strictly higher, yoruba when the yoruba count
  is positive and at least the pidgin count, ties included, and english only when both
  counts are zero. One pidgin hit and two yoruba hits give yoruba, and so does one hit
  from each list.
\<close>

theorem language_by_counts:
  "(detect_nigerian_language txt = ''pidgin'')
     = (count_in yoruba_indicators (lower txt) < count_in pidgin_indicators (lower txt))
   \<and> (detect_nigerian_language txt = ''yoruba'')
     = (count_in pidgin_indicators (lower txt) \<le> count_in yoruba_indicators (lower txt)
        \<and> 0 < count_in yoruba_indicators (lower txt))
   \<and> (detect_nigerian_language txt = ''english'')
     = (count_in pidgin_indicators (lower txt) = 0
        \<and> count_in yoruba_indicators (lower txt) = 0)
   \<and> (count_in pidgin_indicators (lower txt) = 1
        \<and> count_in yoruba_indicators (lower txt) = 2
        \<longrightarrow> detect_nigerian_language txt = ''yoruba'')
   \<and> (count_in pidgin_indicators (lower txt) = 1
        \<and> count_in yoruba_indicators (lower txt) = 1
        \<longrightarrow> detect_nigerian_language txt = ''yoruba'')"
  unfolding detect_nigerian_language_def Let_def by auto

theorem language_by_counts_witness:
  "count_in pidgin_indicators (lower ''gbege baba mama'') = 1
   \<and> count_in yoruba_indicators (lower ''gbege baba mama'') = 2
   \<and> detect_nigerian_language ''gbege baba mama'' = ''yoruba''
   \<and> count_in pidgin_indicators (lower ''gbege baba'') = 1
   \<and> count_in yoruba_indicators (lower ''gbege baba'') = 1
   \<and> detect_nigerian_language ''gbege baba'' = ''yoruba''"
  using language_by_counts[of "''gbege baba mama''"] language_by_counts[of "''gbege baba''"]
    gbege_baba gbege_baba_mama by blast

section \<open>The alert generator: claims\<close>

lemma set_unique [simp]: "set (unique xs) = set xs"
  by (simp add: unique_def)

lemma distinct_unique [simp]: "distinct (unique xs)"
  by (simp add: unique_def)

lemma unique_Nil_iff [simp]: "unique xs = [] \<longleftrightarrow> xs = []"
  by (simp add: unique_def)

lemma value_counts_nonempty: "xs \<noteq> [] \<Longrightarrow> value_counts xs \<noteq> []"
proof -
  assume "xs \<noteq> []"
  then have ne: "unique xs \<noteq> []" by simp
  have "length (value_counts xs) = length (unique xs)" by (simp add: value_counts_def)
  with ne show ?thesis by (metis length_0_conv)
qed

lemma make_alert_Some:
  "make_alert self now a grp avg conf sev = Inr (Some al) \<Longrightarrow> area al = a \<and> severity al = sev"
  unfolding make_alert_def by (auto split: list.splits prod.splits)

lemma make_alert_cases:
  "make_alert self now a grp avg conf sev = Inl IndexError \<and> map category grp = []
   \<or> (\<exists>al. make_alert self now a grp avg conf sev = Inr (Some al) \<and> area al = a \<and> severity al = sev)"
proof (cases "value_counts (map category grp)")
  case Nil
  then have "map category grp = []" using value_counts_nonempty by blast
  with Nil show ?thesis by (simp add: make_alert_def)
next
  case (Cons p ps)
  then show ?thesis by (cases p) (simp add: make_alert_def)
qed

lemma area_alert_Some:
  assumes "area_alert self now df a = Inr (Some al)"
  shows "area al = a \<and> a \<noteq> ''Unknown''
         \<and> minimum_sources self \<le> length (filter (\<lambda>r. location r = a) df)"
  using assms unfolding area_alert_def Let_def
  by (auto split: if_splits dest: make_alert_Some)

lemma area_alert_no_error:
  assumes "0 < minimum_sources self"
  shows "area_alert self now df a \<noteq> Inl e"
proof
  assume err: "area_alert self now df a = Inl e"
  let ?grp = "filter (\<lambda>r. location r = a) df"
  from err have len: "minimum_sources self \<le> length ?grp"
    unfolding area_alert_def Let_def by (auto split: if_splits)
  with assms have ne: "map category ?grp \<noteq> []" by auto
  from err obtain avg conf sev where "make_alert self now a ?grp avg conf sev = Inl e"
    unfolding area_alert_def Let_def by (auto split: if_splits)
  with make_alert_cases[of self now a ?grp avg conf sev] ne show False by auto
qed

lemma area_alert_high:
  assumes "a \<noteq> ''Unknown''" "0 < minimum_sources self"
    and "minimum_sources self \<le> length (filter (\<lambda>r. location r = a) df)"
    and "mean (map adjusted_sentiment (filter (\<lambda>r. location r = a) df)) \<le> high_threshold self"
  shows "\<exists>al. area_alert self now df a = Inr (Some al) \<and> area al = a \<and> severity al = ''high''"
proof -
  let ?grp = "filter (\<lambda>r. location r = a) df"
  let ?avg = "mean (map adjusted_sentiment ?grp)"
  let ?conf = "mean (map confidence ?grp)"
  have eq: "area_alert self now df a = make_alert self now a ?grp ?avg ?conf ''high''"
    using assms unfolding area_alert_def Let_def by simp
  have ne: "map category ?grp \<noteq> []" using assms(2,3) by auto
  with make_alert_cases[of self now a ?grp ?avg ?conf "''high''"] eq show ?thesis by auto
qed

lemma loop_other:
  "a \<notin> set areas \<Longrightarrow>
   filter (\<lambda>al. area al = a) (alerts_loop self now df areas acc) = filter (\<lambda>al. area al = a) acc"
proof (induction areas arbitrary: acc)
  case Nil
  then show ?case by simp
next
  case (Cons h rest)
  then have ne: "h \<noteq> a" and nin: "a \<notin> set rest" by auto
  show ?case
  proof (cases "area_alert self now df h")
    case (Inl e)
    then show ?thesis by simp
  next
    case (Inr r)
    show ?thesis
    proof (cases r)
      case None
      with Inr Cons.IH[OF nin] show ?thesis by simp
    next
      case (Some al)
      with Inr area_alert_Some[of self now df h al] have "area al = h" by simp
      with Some Inr Cons.IH[OF nin, of "acc @ [al]"] ne show ?thesis by simp
    qed
  qed
qed

lemma loop_small:
  "length (filter (\<lambda>r. location r = a) df) < minimum_sources self \<Longrightarrow>
   filter (\<lambda>al. area al = a) (alerts_loop self now df areas acc) = filter (\<lambda>al. area al = a) acc"
proof (induction areas arbitrary: acc)
  case Nil
  then show ?case by simp
next
  case (Cons h rest)
  show ?case
  proof (cases "area_alert self now df h")
    case (Inl e)
    then show ?thesis by simp
  next
    case (Inr r)
    show ?thesis
    proof (cases r)
      case None
      with Inr Cons.IH[OF Cons.prems] show ?thesis by simp
    next
      case (Some al)
      with Inr area_alert_Some[of self now df h al]
      have "area al = h" "minimum_sources self \<le> length (filter (\<lambda>r. location r = h) df)"
        by simp_all
      with Cons.prems have "area al \<noteq> a" by auto
      with Some Inr Cons.IH[OF Cons.prems, of "acc @ [al]"] show ?thesis by simp
    qed
  qed
qed

lemma loop_hit:
  assumes "0 < minimum_sources self" "area_alert self now df a = Inr (Some al)"
  shows "distinct areas \<Longrightarrow> a \<in> set areas \<Longrightarrow>
   filter (\<lambda>x. area x = a) (alerts_loop self now df areas acc)
     = filter (\<lambda>x. area x = a) acc @ [al]"
proof (induction areas arbitrary: acc)
  case Nil
  then show ?case by simp
next
  case (Cons h rest)
  have al: "area al = a" using area_alert_Some[OF assms(2)] by simp
  show ?case
  proof (cases "h = a")
    case True
    with Cons.prems have "a \<notin> set rest" by simp
    from loop_other[OF this, of self now df "acc @ [al]"] True assms(2) al
    show ?thesis by simp
  next
    case False
    with Cons.prems have d: "distinct rest" and m: "a \<in> set rest" by auto
    show ?thesis
    proof (cases "area_alert self now df h")
      case (Inl e)
      with area_alert_no_error[OF assms(1)] show ?thesis by blast
    next
      case (Inr r)
      show ?thesis
      proof (cases r)
        case None
        with Inr Cons.IH[OF d m] show ?thesis by simp
      next
        case (Some al')
        with Inr area_alert_Some[of self now df h al'] have "area al' = h" by simp
        with Some Inr Cons.IH[OF d m, of "acc @ [al']"] False show ?thesis by simp
      qed
    qed
  qed
qed

text \<open>
  Claim C1. With the default configuration (three sources at least, high threshold
  \<open>-0.5\<close>), an area with exactly two records in the batch gets no alert, whatever its
  scores, and an area other than \<open>Unknown\<close> with exactly three records whose mean
  adjusted score is at most \<open>-0.5\<close> gets exactly one alert, of severity high.
\<close>

theorem alert_suppression:
  "(length (filter (\<lambda>r. location r = a) batch) = minimum_sources alert_config - 1
      \<longrightarrow> filter (\<lambda>al. area al = a) (generate_alerts alert_config now batch) = [])
   \<and> (a \<noteq> ''Unknown''
       \<and> length (filter (\<lambda>r. location r = a) batch) = minimum_sources alert_config
       \<and> mean (map adjusted_sentiment (filter (\<lambda>r. location r = a) batch))
           \<le> high_threshold alert_config
      \<longrightarrow> (\<exists>al. filter (\<lambda>al. area al = a) (generate_alerts alert_config now batch) = [al]
                \<and> severity al = ''high''))"
proof (intro conjI impI)
  assume "length (filter (\<lambda>r. location r = a) batch) = minimum_sources alert_config - 1"
  then have "length (filter (\<lambda>r. location r = a) batch) < minimum_sources alert_config"
    by (simp add: alert_config_def)
  from loop_small[OF this, of now "unique (map location batch)" "[]"]
  show "filter (\<lambda>al. area al = a) (generate_alerts alert_config now batch) = []"
    by (simp add: generate_alerts_def)
next
  assume h: "a \<noteq> ''Unknown''
       \<and> length (filter (\<lambda>r. location r = a) batch) = minimum_sources alert_config
       \<and> mean (map adjusted_sentiment (filter (\<lambda>r. location r = a) batch))
           \<le> high_threshold alert_config"
  have pos: "0 < minimum_sources alert_config" by (simp add: alert_config_def)
  from h pos have ne: "filter (\<lambda>r. location r = a) batch \<noteq> []" by auto
  then have mem: "a \<in> set (unique (map location batch))" and bne: "batch \<noteq> []"
    by (auto simp: filter_empty_conv)
  from area_alert_high[of a alert_config batch now] h pos
  obtain al where al: "area_alert alert_config now batch a = Inr (Some al)"
    and sev: "severity al = ''high''" by auto
  from loop_hit[OF pos al distinct_unique mem, of "[]"] bne sev
  show "\<exists>al. filter (\<lambda>al. area al = a) (generate_alerts alert_config now batch) = [al]
                \<and> severity al = ''high''"
    by (simp add: generate_alerts_def)
qed

theorem alert_suppression_witness:
  "length (filter (\<lambda>r. location r = ''Ikeja'')
      [sample_report ''Ikeja'' (- 1) ''crime'' 0, sample_report ''Ikeja'' (- 1) ''crime'' 0])
     = minimum_sources alert_config - 1
   \<and> filter (\<lambda>al. area al = ''Ikeja'') (generate_alerts alert_config 0
        [sample_report ''Ikeja'' (- 1) ''crime'' 0, sample_report ''Ikeja'' (- 1) ''crime'' 0])
     = []
   \<and> ''Ikeja'' \<noteq> ''Unknown''
   \<and> length (filter (\<lambda>r. location r = ''Ikeja'')
      [sample_report ''Ikeja'' (- 1) ''crime'' 0, sample_report ''Yaba'' 0 ''crime'' 0,
       sample_report ''Ikeja'' (- (1 / 2)) ''traffic'' 0, sample_report ''Ikeja'' 0 ''crime'' 0])
     = minimum_sources alert_config
   \<and> mean (map adjusted_sentiment (filter (\<lambda>r. location r = ''Ikeja'')
      [sample_report ''Ikeja'' (- 1) ''crime'' 0, sample_report ''Yaba'' 0 ''crime'' 0,
       sample_report ''Ikeja'' (- (1 / 2)) ''traffic'' 0, sample_report ''Ikeja'' 0 ''crime'' 0]))
     \<le> high_threshold alert_config
   \<and> (\<exists>al. filter (\<lambda>al. area al = ''Ikeja'') (generate_alerts alert_config 0
        [sample_report ''Ikeja'' (- 1) ''crime'' 0, sample_report ''Yaba'' 0 ''crime'' 0,
         sample_report ''Ikeja'' (- (1 / 2)) ''traffic'' 0, sample_report ''Ikeja'' 0 ''crime'' 0])
       = [al] \<and> severity al = ''high'')"
proof -
  let ?two = "[sample_report ''Ikeja'' (- 1) ''crime'' 0, sample_report ''Ikeja'' (- 1) ''crime'' 0]"
  let ?four = "[sample_report ''Ikeja'' (- 1) ''crime'' 0, sample_report ''Yaba'' 0 ''crime'' 0,
       sample_report ''Ikeja'' (- (1 / 2)) ''traffic'' 0, sample_report ''Ikeja'' 0 ''crime'' 0]"
  have h1: "length (filter (\<lambda>r. location r = ''Ikeja'') ?two) = minimum_sources alert_config - 1"
    by (simp add: sample_report_def alert_config_def)
  have h2: "''Ikeja'' \<noteq> ''Unknown''" by simp
  have h3: "length (filter (\<lambda>r. location r = ''Ikeja'') ?four) = minimum_sources alert_config"
    by (simp add: sample_report_def alert_config_def)
  have h4: "mean (map adjusted_sentiment (filter (\<lambda>r. location r = ''Ikeja'') ?four))
      \<le> high_threshold alert_config"
    by (simp add: sample_report_def alert_config_def mean_def)
  from alert_suppression[of "''Ikeja''" ?two 0] alert_suppression[of "''Ikeja''" ?four 0]
    h1 h2 h3 h4
  show ?thesis by blast
qed

section \<open>The query layer: claims\<close>

lemma round_even_mono:
  assumes "x \<le> y"
  shows "round_even x \<le> round_even y"
proof (rule ccontr)
  assume "\<not> round_even x \<le> round_even y"
  then have gt: "round_even y + 1 \<le> round_even x" by simp
  then have g: "(of_int (round_even y) :: rat) + 1 \<le> of_int (round_even x)"
    by (metis of_int_1 of_int_add of_int_le_iff)
  note ex = round_even_err[of x] and ey = round_even_err[of y]
  from g ex ey assms have "x = y" by linarith
  with gt show False by simp
qed

lemma round3_mono: "x \<le> y \<Longrightarrow> round3 x \<le> round3 y"
  unfolding round3_def by (simp add: divide_right_mono round_even_mono)

lemma sorted_map_mono:
  assumes "\<And>x y. x \<le> y \<Longrightarrow> g x \<le> g y"
  shows "sorted (map f xs) \<Longrightarrow> sorted (map (\<lambda>x. g (f x)) xs)"
  by (induction xs) (auto simp: assms)

lemma area_group_window:
  "a \<noteq> ''Unknown'' \<Longrightarrow> area_group (area_window rows since) a = records_of_area rows since a"
  unfolding area_group_def area_window_def records_of_area_def
  by (induction rows) auto

lemma ar_area_row [simp]: "ar_area (area_row selected a) = a"
  by (simp add: area_row_def Let_def)

lemma window_locations:
  "set (map location (area_window rows since))
     = location ` {r \<in> set rows. timestamp r > since \<and> location r \<noteq> ''Unknown''}"
  by (auto simp: area_window_def)

lemma unknown_not_selected: "''Unknown'' \<notin> set (map location (area_window rows since))"
  by (auto simp: area_window_def)

text \<open>
  Claim C8. On an available store \<open>get_area_analysis\<close> returns one row for each area
  other than \<open>Unknown\<close> that has a record in the window, and no row for \<open>Unknown\<close>.
  A row holds the mean adjusted sentiment and the mean confidence of the records of its
  area in the window, both rounded to three places, their number, and the numbers of
  those of category crime and of category traffic. The rows are in ascending order of
  the mean adjusted sentiment, and so are the rounded values they hold.
\<close>

theorem area_breakdown:
  fixes rows alert_rows now hours
  defines "res \<equiv> get_area_analysis (Database rows alert_rows) now hours"
    and "since \<equiv> now - seconds hours"
  shows "''Unknown'' \<notin> set (map ar_area res)
   \<and> set (map ar_area res)
       = location ` {r \<in> set rows. timestamp r > since \<and> location r \<noteq> ''Unknown''}
   \<and> distinct (map ar_area res)
   \<and> map ar_sentiment res
       = map (\<lambda>g. round3 (mean (map adjusted_sentiment (records_of_area rows since (ar_area g))))) res
   \<and> map ar_confidence res
       = map (\<lambda>g. round3 (mean (map confidence (records_of_area rows since (ar_area g))))) res
   \<and> map ar_sources res = map (\<lambda>g. length (records_of_area rows since (ar_area g))) res
   \<and> map crime_reports res
       = map (\<lambda>g. length (filter (\<lambda>r. category r = ''crime'')
                    (records_of_area rows since (ar_area g)))) res
   \<and> map traffic_reports res
       = map (\<lambda>g. length (filter (\<lambda>r. category r = ''traffic'')
                    (records_of_area rows since (ar_area g)))) res
   \<and> sorted (map (\<lambda>g. mean (map adjusted_sentiment (records_of_area rows since (ar_area g)))) res)
   \<and> sorted (map ar_sentiment res)"
proof -
  define selected where "selected = area_window rows since"
  define key where "key = (\<lambda>a. mean (map adjusted_sentiment (area_group selected a)))"
  define ordered where "ordered = sort_key key (unique (map location selected))"
  have res: "res = map (area_row selected) ordered"
    unfolding res_def get_area_analysis_def Let_def ordered_def key_def selected_def since_def
    by simp
  have areas: "map ar_area res = ordered" unfolding res by (simp add: comp_def)
  have set_ordered: "set ordered = set (map location selected)"
    unfolding ordered_def by simp
  have nu: "a \<noteq> ''Unknown''" if "a \<in> set ordered" for a
    using that unknown_not_selected[of rows since] unfolding set_ordered selected_def by metis
  have grp: "\<And>a. a \<in> set ordered \<Longrightarrow> area_group selected a = records_of_area rows since a"
    unfolding selected_def using nu area_group_window by simp
  have c1: "''Unknown'' \<notin> set (map ar_area res)" unfolding areas using nu by blast
  have c2: "set (map ar_area res)
       = location ` {r \<in> set rows. timestamp r > since \<and> location r \<noteq> ''Unknown''}"
    unfolding areas set_ordered selected_def by (rule window_locations)
  have c3: "distinct (map ar_area res)" unfolding areas ordered_def by simp
  have c4: "map ar_sentiment res
       = map (\<lambda>g. round3 (mean (map adjusted_sentiment (records_of_area rows since (ar_area g))))) res"
    unfolding res by (simp add: area_row_def Let_def grp)
  have c5: "map ar_confidence res
       = map (\<lambda>g. round3 (mean (map confidence (records_of_area rows since (ar_area g))))) res"
    unfolding res by (simp add: area_row_def Let_def grp)
  have c6: "map ar_sources res = map (\<lambda>g. length (records_of_area rows since (ar_area g))) res"
    unfolding res by (simp add: area_row_def Let_def grp)
  have c7: "map crime_reports res
       = map (\<lambda>g. length (filter (\<lambda>r. category r = ''crime'')
                    (records_of_area rows since (ar_area g)))) res"
    unfolding res by (simp add: area_row_def Let_def grp)
  have c8: "map traffic_reports res
       = map (\<lambda>g. length (filter (\<lambda>r. category r = ''traffic'')
                    (records_of_area rows since (ar_area g)))) res"
    unfolding res by (simp add: area_row_def Let_def grp)
  have sk: "sorted (map key ordered)" unfolding ordered_def by simp
  have keq: "map (\<lambda>g. mean (map adjusted_sentiment (records_of_area rows since (ar_area g)))) res
      = map key ordered"
    unfolding res key_def by (simp add: grp)
  have c9: "sorted (map (\<lambda>g. mean (map adjusted_sentiment (records_of_area rows since (ar_area g)))) res)"
    unfolding keq by (rule sk)
  have seq: "map ar_sentiment res = map (\<lambda>a. round3 (key a)) ordered"
    unfolding res key_def by (simp add: area_row_def Let_def)
  have c10: "sorted (map ar_sentiment res)"
    unfolding seq using sorted_map_mono[of round3 key ordered, OF round3_mono sk] by simp
  from c1 c2 c3 c4 c5 c6 c7 c8 c9 c10 show ?thesis by (intro conjI)
qed

theorem area_breakdown_witness:
  "map ar_area (get_area_analysis (Database
       [sample_report ''Ikeja'' (- (2 / 5)) ''crime'' 100, sample_report ''Yaba'' (- 1) ''crime'' 100,
        sample_report ''Ikeja'' (- (1 / 2)) ''traffic'' 100, sample_report ''Unknown'' (- 1) ''crime'' 100,
        sample_report ''Yaba'' 1 ''crime'' 0] []) 3600 1) = [''Yaba'', ''Ikeja'']
   \<and> ''Unknown'' \<notin> set (map ar_area (get_area_analysis (Database
       [sample_report ''Ikeja'' (- (2 / 5)) ''crime'' 100, sample_report ''Yaba'' (- 1) ''crime'' 100,
        sample_report ''Ikeja'' (- (1 / 2)) ''traffic'' 100, sample_report ''Unknown'' (- 1) ''crime'' 100,
        sample_report ''Yaba'' 1 ''crime'' 0] []) 3600 1))
   \<and> sorted (map ar_sentiment (get_area_analysis (Database
       [sample_report ''Ikeja'' (- (2 / 5)) ''crime'' 100, sample_report ''Yaba'' (- 1) ''crime'' 100,
        sample_report ''Ikeja'' (- (1 / 2)) ''traffic'' 100, sample_report ''Unknown'' (- 1) ''crime'' 100,
        sample_report ''Yaba'' 1 ''crime'' 0] []) 3600 1))"
proof -
  let ?rows = "[sample_report ''Ikeja'' (- (2 / 5)) ''crime'' 100, sample_report ''Yaba'' (- 1) ''crime'' 100,
        sample_report ''Ikeja'' (- (1 / 2)) ''traffic'' 100, sample_report ''Unknown'' (- 1) ''crime'' 100,
        sample_report ''Yaba'' 1 ''crime'' 0]"
  have h: "map ar_area (get_area_analysis (Database ?rows []) 3600 1) = [''Yaba'', ''Ikeja'']"
    by code_simp
  from area_breakdown[of ?rows "[]" 3600 1] h show ?thesis by blast
qed

lemma sort_key_Nil_iff: "sort_key f xs = [] \<longleftrightarrow> xs = []"
  by (metis length_0_conv length_sort)

lemma recent_Unavailable [simp]: "get_recent_sentiment Unavailable now hours = []"
  by (simp add: get_recent_sentiment_def)

lemma recent_empty_iff:
  "get_recent_sentiment (Database rows alert_rows) now hours = []
     \<longleftrightarrow> filter (\<lambda>r. timestamp r > now - seconds hours) rows = []"
  by (simp add: get_recent_sentiment_def Let_def sort_key_Nil_iff)

lemma status_of_window:
  "get_recent_sentiment db now 24 = [] \<Longrightarrow> get_current_status db now = no_data_status"
  "get_recent_sentiment db now 24 \<noteq> [] \<Longrightarrow> status (get_current_status db now) = ''healthy''"
  unfolding get_current_status_def current_status_body_def Let_def average_def
  by simp_all

text \<open>
  On a window without records the status is \<open>no_data\<close>, and on a window with records
  it is \<open>healthy\<close>.
\<close>

lemma status_by_window:
  "(filter (\<lambda>r. timestamp r > now - seconds 24) rows = []
      \<longrightarrow> get_current_status (Database rows alert_rows) now = no_data_status)
   \<and> (filter (\<lambda>r. timestamp r > now - seconds 24) rows \<noteq> []
      \<longrightarrow> status (get_current_status (Database rows alert_rows) now) = ''healthy'')
   \<and> status no_data_status = ''no_data''"
  using status_of_window[of "Database rows alert_rows" now]
  by (simp add: recent_empty_iff no_data_status_def)

text \<open>
  Claim C7. The status of an empty window is the explicit state \<open>no_data\<close>, but a
  failure of the store is not surfaced as an error: \<open>get_recent_sentiment\<close> catches it,
  logs it and returns the empty list, so \<open>get_current_status\<close> returns for an
  unavailable store the very result of an empty window, and its own \<open>error\<close> state is
  never reached by a store failure.
\<close>

theorem store_failure_reported_as_no_data:
  "get_current_status Unavailable now = get_current_status (Database [] []) now
   \<and> status (get_current_status Unavailable now) = ''no_data''
   \<and> status (get_current_status Unavailable now) \<noteq> ''error''"
  by (simp add: status_of_window(1) recent_empty_iff no_data_status_def)

end
